theory Spec2Isabelle
  imports Main
begin

section \<open>Values and elements\<close>

text \<open>
  The repository is a Next.js front-end: two page components, a root layout and one
  API route. The components build element trees out of literals, so the embedding has
  the values that occur in them (strings, booleans, \<open>undefined\<close>, object and array
  literals) and the element a JSX expression denotes: a tag or component name, the
  props in the order written, and the children.
\<close>

datatype js_value =
    JString string
  | JBool bool
  | JUndefined
  | JObject "(string \<times> js_value) list"
  | JArray "js_value list"

datatype element =
    Element string "(string \<times> js_value) list" "element list"
  | JsxText string

text \<open>Reading a property of an object literal; a key that is absent reads \<open>undefined\<close>.\<close>

definition field :: "string \<Rightarrow> js_value \<Rightarrow> js_value" where
  "field k v =
     (case v of
        JObject kvs \<Rightarrow> (case map_of kvs k of Some x \<Rightarrow> x | None \<Rightarrow> JUndefined)
      | _ \<Rightarrow> JUndefined)"

text \<open>The items of an array literal; anything else has none.\<close>

definition items :: "js_value \<Rightarrow> js_value list" where
  "items v = (case v of JArray xs \<Rightarrow> xs | _ \<Rightarrow> [])"

text \<open>Reading a prop of an element.\<close>

definition get_prop :: "string \<Rightarrow> element \<Rightarrow> js_value" where
  "get_prop k e =
     (case e of
        Element n ps cs \<Rightarrow> (case map_of ps k of Some x \<Rightarrow> x | None \<Rightarrow> JUndefined)
      | JsxText s \<Rightarrow> JUndefined)"

text \<open>All elements of a tree with a given name, in document order.\<close>

fun elements_named :: "string \<Rightarrow> element \<Rightarrow> element list" where
  "elements_named t (Element n ps cs) =
     (if n = t then [Element n ps cs] else []) @ concat (map (elements_named t) cs)"
| "elements_named t (JsxText s) = []"

section \<open>Hooks\<close>

text \<open>
  A component instance keeps its \<open>useState\<close> cells in call order. The first render
  (no cell yet) creates the cell from the initial value; a later render reads the cell.
  The setter returned with the value overwrites the cell.
\<close>

type_synonym hooks = "string list"

definition useState ::
  "nat \<Rightarrow> string \<Rightarrow> hooks \<Rightarrow> (string \<times> (string \<Rightarrow> hooks \<Rightarrow> hooks)) \<times> hooks" where
  "useState i init hs =
     (if i < length hs then ((hs ! i, \<lambda>v hs'. hs'[i := v]), hs)
      else ((init, \<lambda>v hs'. hs'[i := v]), hs @ [init]))"

section \<open>The page components\<close>

type_synonym env = "string \<rightharpoonup> string"

text \<open>\<open>process.env.NAME\<close>: the value of the variable, \<open>undefined\<close> when it is not set.\<close>

definition process_env :: "env \<Rightarrow> string \<Rightarrow> js_value" where
  "process_env env name = (case env name of Some v \<Rightarrow> JString v | None \<Rightarrow> JUndefined)"

text \<open>The first page file (\<open>src/unnamed/part_000\<close>): \<open>Chat\<close> and \<open>Page\<close>.\<close>

definition part_000_Chat :: "hooks \<Rightarrow> element \<times> hooks" where
  "part_000_Chat hs =
     (let ((background, _), hs') = useState 0 ''var(--copilot-kit-background-color)'' hs
      in (Element ''div''
            [(''className'', JString ''flex justify-center items-center h-full w-full''),
             (''data-testid'', JString ''background-container''),
             (''style'', JObject [(''background'', JString background)])]
            [Element ''div''
               [(''className'', JString ''h-full w-full md:w-8/10 md:h-8/10 rounded-lg'')]
               [Element ''div''
                  [(''className'', JString ''text-sm font-semibold mb-2 ml-2 text-gray-400'')]
                  [JsxText ''Sample suggestions:''],
                Element ''CopilotChat''
                  [(''className'', JString ''h-full rounded-2xl max-w-6xl mx-auto''),
                   (''labels'', JObject
                      [(''initial'', JString
                          ''Please enter a hospital name to find its CCN or a NPI to find the hospital type.'')]),
                   (''suggestions'', JArray
                      [JObject
                         [(''title'', JString ''Find CCN for Bayonne Medical Center''),
                          (''message'', JString ''Find CCN for Bayonne Medical Center'')],
                       JObject
                         [(''title'', JString ''Find hospital type for 1104144641''),
                          (''message'', JString ''Find hospital type for 1104144641'')]])]
                  []]],
          hs'))"

definition part_000_Page :: "env \<Rightarrow> hooks \<Rightarrow> element \<times> hooks" where
  "part_000_Page env hs =
     (let (chat, hs') = part_000_Chat hs
      in (Element ''CopilotKit''
            [(''runtimeUrl'', process_env env ''NEXT_PUBLIC_API_BASE_URL''),
             (''showDevConsole'', JBool False),
             (''agent'', JString ''my_agent'')]
            [chat],
          hs'))"

text \<open>The second page file (\<open>src/unnamed/part_002\<close>): \<open>Chat\<close> and \<open>Page\<close>.\<close>

definition part_002_Chat :: "hooks \<Rightarrow> element \<times> hooks" where
  "part_002_Chat hs =
     (let ((background, setBackground), hs') =
            useState 0 ''var(--copilot-kit-background-color)'' hs
      in (Element ''div''
            [(''className'', JString ''flex justify-center items-center h-full w-full''),
             (''data-testid'', JString ''background-container''),
             (''style'', JObject [(''background'', JString background)])]
            [Element ''div''
               [(''className'', JString ''h-full w-full md:w-8/10 md:h-8/10 rounded-lg'')]
               [Element ''CopilotChat''
                  [(''className'', JString ''h-full rounded-2xl max-w-6xl mx-auto''),
                   (''labels'', JObject
                      [(''initial'', JString
                          ''Please enter a hospital name to find its CCN or a NPI to find the hospital type.'')]),
                   (''suggestions'', JArray
                      [JObject
                         [(''title'', JString ''Find CCN for Bayonne Medical Center''),
                          (''message'', JString ''Find CCN for Bayonne Medical Center'')],
                       JObject
                         [(''title'', JString ''Find hospital type for 1104144641''),
                          (''message'', JString ''Find hospital type for 1104144641'')]])]
                  []]],
          hs'))"

definition part_002_Page :: "env \<Rightarrow> hooks \<Rightarrow> element \<times> hooks" where
  "part_002_Page env hs =
     (let (chat, hs') = part_002_Chat hs
      in (Element ''CopilotKit''
            [(''runtimeUrl'', JString ''/api/copilotkit''),
             (''showDevConsole'', JBool False),
             (''agent'', JString ''my_agent'')]
            [chat],
          hs'))"

text \<open>The suggestion lists a tree hands to the chat component, one per \<open>CopilotChat\<close>.\<close>

definition suggestions_of :: "element \<Rightarrow> js_value list list" where
  "suggestions_of tree = map (\<lambda>e. items (get_prop ''suggestions'' e)) (elements_named ''CopilotChat'' tree)"

text \<open>The root layout (\<open>src/unnamed/part_001\<close>): it wraps the page it is given.\<close>

definition RootLayout :: "element list \<Rightarrow> element" where
  "RootLayout children =
     Element ''html'' [(''lang'', JString ''en'')]
       [Element ''body'' [(''className'', JString ''antialiased'')]
          [Element ''CopilotKit''
             [(''runtimeUrl'', JString ''/api/copilotkit''),
              (''agent'', JString ''my_agent'')]
             children]]"

text \<open>The provider of a tree: its first \<open>CopilotKit\<close> element in document order.\<close>

definition provider :: "element \<Rightarrow> element option" where
  "provider tree = (case elements_named ''CopilotKit'' tree of [] \<Rightarrow> None | e # _ \<Rightarrow> Some e)"

text \<open>The background a \<open>Chat\<close> tree is styled with: \<open>style.background\<close> of its root.\<close>

definition background_of :: "element \<Rightarrow> js_value" where
  "background_of tree = field ''background'' (get_prop ''style'' tree)"

text \<open>
  A mounted component is rendered again and again. Neither \<open>Chat\<close> hands the setter
  of its cell to a handler or an effect, so between two renders nothing writes the
  cells: the cells one render leaves are the cells the next one reads.
\<close>

fun renders :: "(hooks \<Rightarrow> element \<times> hooks) \<Rightarrow> nat \<Rightarrow> hooks \<Rightarrow> element list \<times> hooks" where
  "renders c 0 hs = ([], hs)"
| "renders c (Suc n) hs =
     (let (tree, hs') = c hs; (trees, hs'') = renders c n hs' in (tree # trees, hs''))"

text \<open>Two edits of a tree, used to compare the page variants.\<close>

fun remove_child :: "element \<Rightarrow> element \<Rightarrow> element" where
  "remove_child x (Element n ps cs) =
     Element n ps (map (remove_child x) (filter (\<lambda>c. c \<noteq> x) cs))"
| "remove_child x (JsxText s) = JsxText s"

fun set_prop :: "string \<Rightarrow> string \<Rightarrow> js_value \<Rightarrow> element \<Rightarrow> element" where
  "set_prop t k v (Element n ps cs) =
     Element n
       (if n = t then map (\<lambda>(k', v'). if k' = k then (k', v) else (k', v')) ps else ps)
       (map (set_prop t k v) cs)"
| "set_prop t k v (JsxText s) = JsxText s"

text \<open>The caption only the first page file shows above the chat.\<close>

definition caption :: element where
  "caption =
     Element ''div''
       [(''className'', JString ''text-sm font-semibold mb-2 ml-2 text-gray-400'')]
       [JsxText ''Sample suggestions:'']"

text \<open>Whether a string occurs in another, and whether a target names an onrender.com host.\<close>

fun contains :: "string \<Rightarrow> string \<Rightarrow> bool" where
  "contains p [] = (p = [])"
| "contains p (c # cs) = (take (length p) (c # cs) = p \<or> contains p cs)"

definition names_onrender :: "js_value \<Rightarrow> bool" where
  "names_onrender v = (case v of JString s \<Rightarrow> contains ''onrender.com'' s | _ \<Rightarrow> False)"

section \<open>The API route\<close>

text \<open>
  \<open>src/app/api/copilotkit/route.ts\<close>. The module binds \<open>serviceAdapter\<close> and
  \<open>runtime\<close> when it is loaded; \<open>runtime\<close> is built from an object literal whose
  \<open>agents\<close> has one key. An object literal is kept as the list of its keys and values.
\<close>

record http_agent =
  url :: string

record copilot_runtime =
  agents :: "(string \<times> http_agent) list"

datatype service_adapter = ExperimentalEmptyAdapter

record route_module =
  runtime :: copilot_runtime
  serviceAdapter :: service_adapter

text \<open>
  The options \<open>POST\<close> passes on: the module's two bindings under their own names
  (shorthand properties) and the endpoint path.
\<close>

record endpoint_options = route_module +
  endpoint :: string

definition route_module_load :: "env \<Rightarrow> route_module" where
  "route_module_load env =
     \<lparr>runtime = \<lparr>agents = [(''my_agent'', \<lparr>url = ''https://adkbotbackend.onrender.com''\<rparr>)]\<rparr>,
      serviceAdapter = ExperimentalEmptyAdapter\<rparr>"

text \<open>
  \<open>copilotRuntimeNextJSAppRouterEndpoint\<close> and the \<open>handleRequest\<close> it returns belong to
  an external library, so they are parameters of the model. A call into the library
  may fail (\<open>Inl\<close>, a throw or a rejected promise) or return (\<open>Inr\<close>), and may act on
  whatever it can reach (\<open>'w\<close>: the network, the library's own state, and the
  objects it is handed).
\<close>

record ('req, 'w, 'e, 'res) endpoint_handlers =
  handleRequest :: "'req \<Rightarrow> 'w \<Rightarrow> ('e + 'res) \<times> 'w"

type_synonym ('req, 'w, 'e, 'res) endpoint_factory =
  "endpoint_options \<Rightarrow> 'w \<Rightarrow> ('e + ('req, 'w, 'e, 'res) endpoint_handlers) \<times> 'w"

text \<open>
  \<open>POST\<close> is an async function: what its body throws and what the promise it returns
  rejects with reach the caller the same way, as a rejection (\<open>Inl\<close>).
\<close>

definition POST ::
  "('req, 'w, 'e, 'res) endpoint_factory \<Rightarrow> route_module \<Rightarrow> 'req \<Rightarrow> 'w \<Rightarrow> ('e + 'res) \<times> 'w" where
  "POST copilotRuntimeNextJSAppRouterEndpoint m req w =
     (case copilotRuntimeNextJSAppRouterEndpoint
             \<lparr>runtime = runtime m, serviceAdapter = serviceAdapter m,
              endpoint = ''/api/copilotkit''\<rparr> w of
        (Inl e, w') \<Rightarrow> (Inl e, w')
      | (Inr handlers, w') \<Rightarrow> handleRequest handlers req w')"





section \<open>The external runtime\<close>

text \<open>An outbound HTTP call: where it goes and what it carries.\<close>

record 'req outbound_call =
  target :: string
  payload :: 'req

text \<open>
  Modelled from the spec: \<open>copilotRuntimeNextJSAppRouterEndpoint\<close> of the external
  package \<open>@copilotkit/runtime\<close>, whose code is not part of the repository. The spec
  says of it that the route "forwards the request, via the external runtime, to the
  remote agent HTTP endpoint", "returning the remote response unmodified to the
  caller", with the side effect of "a network call to the configured remote URL".
  So the handler it returns sends the request it is given to the URL of each agent
  registered with the runtime, and returns what the remote end (\<open>remote\<close>) answers.
  The world is the list of outbound calls made so far.
\<close>

definition forwarding_endpoint ::
  "(string \<Rightarrow> 'req \<Rightarrow> 'res) \<Rightarrow> ('req, 'req outbound_call list, 'e, 'res list) endpoint_factory" where
  "forwarding_endpoint remote opts w =
     (Inr \<lparr>handleRequest = (\<lambda>req net.
              (Inr (map (\<lambda>(name, a). remote (url a) req) (agents (runtime opts))),
               net @ map (\<lambda>(name, a). \<lparr>target = url a, payload = req\<rparr>) (agents (runtime opts))))\<rparr>,
      w)"

text \<open>
  A sample runtime for trying \<open>POST\<close> on a failure: its handler always fails, and the
  world counts how often the handler has been invoked.
\<close>

definition unreachable_endpoint :: "('req, nat, string, 'res) endpoint_factory" where
  "unreachable_endpoint opts w =
     (Inr \<lparr>handleRequest = (\<lambda>req n. (Inl ''remote agent unreachable'', Suc n))\<rparr>, w)"



section \<open>Shared facts\<close>

lemma useState_first_cell:
  "useState 0 init hs =
     ((if hs = [] then init else hs ! 0, \<lambda>v hs'. hs'[0 := v]), if hs = [] then [init] else hs)"
  by (cases hs) (simp_all add: useState_def)

lemma part_000_Chat_background:
  "background_of (fst (part_000_Chat hs)) =
     JString (if hs = [] then ''var(--copilot-kit-background-color)'' else hs ! 0)"
  by (simp add: part_000_Chat_def useState_first_cell background_of_def field_def get_prop_def)

lemma part_000_Chat_hooks:
  "snd (part_000_Chat hs) = (if hs = [] then [''var(--copilot-kit-background-color)''] else hs)"
  by (simp add: part_000_Chat_def useState_first_cell)

lemma part_002_Chat_background:
  "background_of (fst (part_002_Chat hs)) =
     JString (if hs = [] then ''var(--copilot-kit-background-color)'' else hs ! 0)"
  by (simp add: part_002_Chat_def useState_first_cell background_of_def field_def get_prop_def)

lemma part_002_Chat_hooks:
  "snd (part_002_Chat hs) = (if hs = [] then [''var(--copilot-kit-background-color)''] else hs)"
  by (simp add: part_002_Chat_def useState_first_cell)

text \<open>Rendering from cells that a render leaves alone gives the same tree each time.\<close>

lemma renders_fixed:
  "snd (c hs) = hs \<Longrightarrow> renders c n hs = (replicate n (fst (c hs)), hs)"
  by (induction n) (simp_all add: split_beta)

lemma renders_Suc:
  "renders c (Suc n) hs =
     (fst (c hs) # fst (renders c n (snd (c hs))), snd (renders c n (snd (c hs))))"
  by (simp add: split_beta)

lemma renders_mount:
  assumes "snd (c []) = hs1" and "snd (c hs1) = hs1"
  shows "renders c (Suc n) [] = (fst (c []) # replicate n (fst (c hs1)), hs1)"
  using assms by (simp add: renders_Suc renders_fixed del: renders.simps)

lemma renders_part_000_Chat:
  "renders part_000_Chat (Suc n) [] =
     (fst (part_000_Chat []) #
        replicate n (fst (part_000_Chat [''var(--copilot-kit-background-color)''])),
      [''var(--copilot-kit-background-color)''])"
  by (rule renders_mount) (simp_all add: part_000_Chat_hooks)

lemma renders_part_002_Chat:
  "renders part_002_Chat (Suc n) [] =
     (fst (part_002_Chat []) #
        replicate n (fst (part_002_Chat [''var(--copilot-kit-background-color)''])),
      [''var(--copilot-kit-background-color)''])"
  by (rule renders_mount) (simp_all add: part_002_Chat_hooks)

lemma backgrounds_part_000_Chat:
  "map background_of (fst (renders part_000_Chat n [])) =
     replicate n (JString ''var(--copilot-kit-background-color)'')"
proof (cases n)
  case 0
  then show ?thesis by simp
next
  case (Suc k)
  then show ?thesis
    by (simp add: renders_part_000_Chat part_000_Chat_background del: renders.simps)
qed

lemma backgrounds_part_002_Chat:
  "map background_of (fst (renders part_002_Chat n [])) =
     replicate n (JString ''var(--copilot-kit-background-color)'')"
proof (cases n)
  case 0
  then show ?thesis by simp
next
  case (Suc k)
  then show ?thesis
    by (simp add: renders_part_002_Chat part_002_Chat_background del: renders.simps)
qed

text \<open>What the providers and the chat components of the two pages are given.\<close>

lemma process_env_eq_iff: "(process_env env1 k = process_env env2 k) = (env1 k = env2 k)"
  by (simp add: process_env_def split: option.splits)

lemma part_000_Page_runtimeUrl:
  "get_prop ''runtimeUrl'' (fst (part_000_Page env hs)) =
     process_env env ''NEXT_PUBLIC_API_BASE_URL''"
  by (simp add: part_000_Page_def get_prop_def split_beta)

lemma part_002_Page_runtimeUrl:
  "get_prop ''runtimeUrl'' (fst (part_002_Page env hs)) = JString ''/api/copilotkit''"
  by (simp add: part_002_Page_def get_prop_def split_beta)

lemma part_000_Page_agent:
  "map (get_prop ''agent'') (elements_named ''CopilotKit'' (fst (part_000_Page env hs))) =
     [JString ''my_agent'']"
  by (simp add: part_000_Page_def part_000_Chat_def get_prop_def split_beta)

lemma part_002_Page_agent:
  "map (get_prop ''agent'') (elements_named ''CopilotKit'' (fst (part_002_Page env hs))) =
     [JString ''my_agent'']"
  by (simp add: part_002_Page_def part_002_Chat_def get_prop_def split_beta)

lemma part_000_Page_initial:
  "map (\<lambda>e. field ''initial'' (get_prop ''labels'' e))
     (elements_named ''CopilotChat'' (fst (part_000_Page env hs))) =
     [JString ''Please enter a hospital name to find its CCN or a NPI to find the hospital type.'']"
  by (simp add: part_000_Page_def part_000_Chat_def get_prop_def field_def split_beta)

lemma part_002_Page_initial:
  "map (\<lambda>e. field ''initial'' (get_prop ''labels'' e))
     (elements_named ''CopilotChat'' (fst (part_002_Page env hs))) =
     [JString ''Please enter a hospital name to find its CCN or a NPI to find the hospital type.'']"
  by (simp add: part_002_Page_def part_002_Chat_def get_prop_def field_def split_beta)

lemma part_000_Page_suggestions:
  "suggestions_of (fst (part_000_Page env hs)) =
     [[JObject [(''title'', JString ''Find CCN for Bayonne Medical Center''),
                (''message'', JString ''Find CCN for Bayonne Medical Center'')],
       JObject [(''title'', JString ''Find hospital type for 1104144641''),
                (''message'', JString ''Find hospital type for 1104144641'')]]]"
  by (simp add: part_000_Page_def part_000_Chat_def suggestions_of_def get_prop_def items_def
      split_beta)

lemma part_002_Page_suggestions:
  "suggestions_of (fst (part_002_Page env hs)) =
     [[JObject [(''title'', JString ''Find CCN for Bayonne Medical Center''),
                (''message'', JString ''Find CCN for Bayonne Medical Center'')],
       JObject [(''title'', JString ''Find hospital type for 1104144641''),
                (''message'', JString ''Find hospital type for 1104144641'')]]]"
  by (simp add: part_002_Page_def part_002_Chat_def suggestions_of_def get_prop_def items_def
      split_beta)

text \<open>
  The second page's tree is the first page's with the caption taken out and the
  provider's \<open>runtimeUrl\<close> set to the proxy path; the cells are the same.
\<close>

lemma pages_trees:
  "fst (part_002_Page env hs) =
     set_prop ''CopilotKit'' ''runtimeUrl'' (JString ''/api/copilotkit'')
       (remove_child caption (fst (part_000_Page env hs)))"
  by (simp add: part_002_Page_def part_000_Page_def part_000_Chat_def part_002_Chat_def
      useState_first_cell split_beta caption_def)

lemma pages_hooks: "snd (part_002_Page env hs) = snd (part_000_Page env hs)"
  by (simp add: part_002_Page_def part_000_Page_def part_000_Chat_def part_002_Chat_def
      useState_first_cell split_beta)

lemma part_000_Page_set_runtimeUrl:
  "set_prop ''CopilotKit'' ''runtimeUrl'' v (fst (part_000_Page env hs)) =
   set_prop ''CopilotKit'' ''runtimeUrl'' v (fst (part_000_Page env' hs))"
  by (simp add: part_000_Page_def part_000_Chat_def split_beta)




section \<open>The claims\<close>

text \<open>
  C1. The agent identifier given to the client-side \<open>CopilotKit\<close> provider is
  \<open>my_agent\<close> in the root layout (whatever page it wraps) and in both page variants
  (whatever the environment and the cells), also for every provider of a layout that
  wraps a page; and \<open>my_agent\<close> is the key, the only one, registered in the
  server-side agent map.
\<close>

theorem agent_identifier_matches:
  "map_option (get_prop ''agent'') (provider (RootLayout children)) = Some (JString ''my_agent'')
   \<and> map_option (get_prop ''agent'') (provider (fst (part_000_Page env hs))) =
       Some (JString ''my_agent'')
   \<and> map_option (get_prop ''agent'') (provider (fst (part_002_Page env hs))) =
       Some (JString ''my_agent'')
   \<and> map (get_prop ''agent'')
       (elements_named ''CopilotKit'' (RootLayout [fst (part_000_Page env hs)])) =
       [JString ''my_agent'', JString ''my_agent'']
   \<and> map (get_prop ''agent'')
       (elements_named ''CopilotKit'' (RootLayout [fst (part_002_Page env hs)])) =
       [JString ''my_agent'', JString ''my_agent'']
   \<and> map (\<lambda>(name, a). JString name) (agents (runtime (route_module_load env))) =
       [JString ''my_agent'']"
  by (simp add: provider_def RootLayout_def part_000_Page_def part_002_Page_def
      part_000_Chat_def part_002_Chat_def get_prop_def split_beta route_module_load_def)




text \<open>
  C3. With the external runtime as the spec describes it (\<open>forwarding_endpoint\<close>), a
  request handled by \<open>POST\<close> adds exactly one call to the outbound calls made so
  far: it goes to \<open>https://adkbotbackend.onrender.com\<close> and carries the inbound
  request as it came in; the caller gets what the remote end answered to it.
\<close>

theorem POST_one_outbound_call:
  "POST (forwarding_endpoint remote) (route_module_load env) req net =
     (Inr [remote ''https://adkbotbackend.onrender.com'' req],
      net @ [\<lparr>target = ''https://adkbotbackend.onrender.com'', payload = req\<rparr>])"
  by (simp add: POST_def forwarding_endpoint_def route_module_load_def)

text \<open>
  C4. Whatever the external runtime is: when it hands out its handlers, \<open>POST\<close>
  returns exactly what one application of \<open>handleRequest\<close> to the inbound request
  returns, result and effect on the world alike, so a failure of \<open>handleRequest\<close>
  is the failure of \<open>POST\<close>; and when building the handlers fails, that failure is
  the outcome of \<open>POST\<close>. Nothing is validated, transformed, retried or translated.
\<close>

theorem POST_returns_handleRequest:
  fixes lib :: "('req, 'w, 'e, 'res) endpoint_factory"
  shows "(\<forall>handlers w'.
            lib \<lparr>runtime = runtime m, serviceAdapter = serviceAdapter m,
                 endpoint = ''/api/copilotkit''\<rparr> w = (Inr handlers, w') \<longrightarrow>
            POST lib m req w = handleRequest handlers req w')
       \<and> (\<forall>e w'.
            lib \<lparr>runtime = runtime m, serviceAdapter = serviceAdapter m,
                 endpoint = ''/api/copilotkit''\<rparr> w = (Inl e, w') \<longrightarrow>
            POST lib m req w = (Inl e, w'))"
  by (simp add: POST_def)

theorem POST_returns_handleRequest_witness:
  "unreachable_endpoint
     \<lparr>runtime = runtime (route_module_load Map.empty),
      serviceAdapter = serviceAdapter (route_module_load Map.empty),
      endpoint = ''/api/copilotkit''\<rparr> 0
     = (Inr \<lparr>handleRequest = (\<lambda>req n. (Inl ''remote agent unreachable'', Suc n))\<rparr>, 0)
   \<and> POST unreachable_endpoint (route_module_load Map.empty) ''{}'' 0
     = (Inl ''remote agent unreachable'', Suc 0)"
proof -
  have h: "unreachable_endpoint
     \<lparr>runtime = runtime (route_module_load Map.empty),
      serviceAdapter = serviceAdapter (route_module_load Map.empty),
      endpoint = ''/api/copilotkit''\<rparr> 0
     = (Inr \<lparr>handleRequest = (\<lambda>req n. (Inl ''remote agent unreachable'', Suc n))\<rparr>, 0)"
    by (simp add: unreachable_endpoint_def)
  from POST_returns_handleRequest
         [of unreachable_endpoint "route_module_load Map.empty" 0 "''{}''"] h
  have "POST unreachable_endpoint (route_module_load Map.empty) ''{}'' 0
     = handleRequest
         \<lparr>handleRequest = (\<lambda>req n. (Inl ''remote agent unreachable'', Suc n))\<rparr> ''{}'' 0"
    by blast
  with h show ?thesis by simp
qed

text \<open>
  C5. Each page variant passes the chat component one suggestion list of exactly two
  entries: first "Find CCN for Bayonne Medical Center", then "Find hospital type for
  1104144641"; the list of the messages is the list of the titles.
\<close>

theorem suggestions_two_entries_title_is_message:
  "suggestions_of (fst (part_000_Page env hs)) =
     [[JObject [(''title'', JString ''Find CCN for Bayonne Medical Center''),
                (''message'', JString ''Find CCN for Bayonne Medical Center'')],
       JObject [(''title'', JString ''Find hospital type for 1104144641''),
                (''message'', JString ''Find hospital type for 1104144641'')]]]
   \<and> suggestions_of (fst (part_002_Page env hs)) = suggestions_of (fst (part_000_Page env hs))
   \<and> map length (suggestions_of (fst (part_000_Page env hs))) = [2]
   \<and> map (map (field ''title'')) (suggestions_of (fst (part_000_Page env hs))) =
       [[JString ''Find CCN for Bayonne Medical Center'',
         JString ''Find hospital type for 1104144641'']]
   \<and> map (map (field ''message'')) (suggestions_of (fst (part_000_Page env hs))) =
       map (map (field ''title'')) (suggestions_of (fst (part_000_Page env hs)))"
  by (simp add: part_000_Page_suggestions part_002_Page_suggestions field_def)

text \<open>
  C6. For any two environments: the route's module, and what \<open>POST\<close> does, are the
  same in both; the second page variant (\<open>part_002\<close>) is the same in both; the first
  page variant (\<open>part_000\<close>) has the value of \<open>NEXT_PUBLIC_API_BASE_URL\<close> as its
  \<open>runtimeUrl\<close>, so its target is the same in both exactly when the variable is, and
  apart from that prop its tree and cells are the same in both.
\<close>

theorem base_url_changes_only_part_000_target:
  "route_module_load env1 = route_module_load env2
   \<and> POST lib (route_module_load env1) req w = POST lib (route_module_load env2) req w
   \<and> part_002_Page env1 hs = part_002_Page env2 hs
   \<and> get_prop ''runtimeUrl'' (fst (part_000_Page env1 hs)) =
       process_env env1 ''NEXT_PUBLIC_API_BASE_URL''
   \<and> get_prop ''runtimeUrl'' (fst (part_000_Page env2 hs)) =
       process_env env2 ''NEXT_PUBLIC_API_BASE_URL''
   \<and> (get_prop ''runtimeUrl'' (fst (part_000_Page env1 hs)) =
        get_prop ''runtimeUrl'' (fst (part_000_Page env2 hs)))
       = (env1 ''NEXT_PUBLIC_API_BASE_URL'' = env2 ''NEXT_PUBLIC_API_BASE_URL'')
   \<and> set_prop ''CopilotKit'' ''runtimeUrl'' v (fst (part_000_Page env1 hs)) =
       set_prop ''CopilotKit'' ''runtimeUrl'' v (fst (part_000_Page env2 hs))
   \<and> snd (part_000_Page env1 hs) = snd (part_000_Page env2 hs)"
proof -
  have a: "route_module_load env1 = route_module_load env2"
    by (simp add: route_module_load_def)
  have b: "part_002_Page env1 hs = part_002_Page env2 hs"
    by (simp add: part_002_Page_def)
  have c: "snd (part_000_Page env1 hs) = snd (part_000_Page env2 hs)"
    by (simp add: part_000_Page_def split_beta)
  show ?thesis
    using a b c part_000_Page_set_runtimeUrl [of v env1 hs env2]
    by (simp add: part_000_Page_runtimeUrl process_env_eq_iff)
qed

text \<open>
  C7, as stated, fails: no presentation component hard-codes an onrender.com origin.
  With \<open>NEXT_PUBLIC_API_BASE_URL\<close> set to \<open>http://localhost:8000\<close>, the first page
  variant targets that URL and the second the proxy path, and neither names
  onrender.com.
\<close>

theorem part_000_target_not_hard_coded:
  "get_prop ''runtimeUrl''
     (fst (part_000_Page
             (Map.empty(''NEXT_PUBLIC_API_BASE_URL'' \<mapsto> ''http://localhost:8000'')) []))
     = JString ''http://localhost:8000''
   \<and> \<not> names_onrender (JString ''http://localhost:8000'')
   \<and> get_prop ''runtimeUrl''
     (fst (part_002_Page
             (Map.empty(''NEXT_PUBLIC_API_BASE_URL'' \<mapsto> ''http://localhost:8000'')) []))
     = JString ''/api/copilotkit''
   \<and> \<not> names_onrender (JString ''/api/copilotkit'')"
  by (simp add: part_000_Page_runtimeUrl part_002_Page_runtimeUrl process_env_def
      names_onrender_def)

text \<open>
  C7, amended. The two page variants are near duplicates (the second is the first
  without the caption and with another \<open>runtimeUrl\<close>) with divergent targets: one
  hard-codes the relative proxy path \<open>/api/copilotkit\<close>, the other takes its target
  from the environment variable \<open>NEXT_PUBLIC_API_BASE_URL\<close> (\<open>undefined\<close> when it is
  not set). The onrender.com origin that is hard-coded is the agent URL of the
  server-side route.
\<close>

theorem page_targets_diverge:
  "get_prop ''runtimeUrl'' (fst (part_002_Page env hs)) = JString ''/api/copilotkit''
   \<and> get_prop ''runtimeUrl'' (fst (part_000_Page env hs)) =
       (case env ''NEXT_PUBLIC_API_BASE_URL'' of Some v \<Rightarrow> JString v | None \<Rightarrow> JUndefined)
   \<and> fst (part_002_Page env hs) =
       set_prop ''CopilotKit'' ''runtimeUrl'' (JString ''/api/copilotkit'')
         (remove_child caption (fst (part_000_Page env hs)))
   \<and> map (\<lambda>(name, a). names_onrender (JString (url a)))
       (agents (runtime (route_module_load env))) = [True]"
proof (intro conjI)
  show "get_prop ''runtimeUrl'' (fst (part_002_Page env hs)) = JString ''/api/copilotkit''"
    by (rule part_002_Page_runtimeUrl)
  show "get_prop ''runtimeUrl'' (fst (part_000_Page env hs)) =
       (case env ''NEXT_PUBLIC_API_BASE_URL'' of Some v \<Rightarrow> JString v | None \<Rightarrow> JUndefined)"
    by (simp add: part_000_Page_runtimeUrl process_env_def)
  show "fst (part_002_Page env hs) =
       set_prop ''CopilotKit'' ''runtimeUrl'' (JString ''/api/copilotkit'')
         (remove_child caption (fst (part_000_Page env hs)))"
    by (rule pages_trees)
  show "map (\<lambda>(name, a). names_onrender (JString (url a)))
       (agents (runtime (route_module_load env))) = [True]"
    by (simp add: route_module_load_def names_onrender_def)
qed

text \<open>
  C8. Each \<open>Chat\<close> has one cell of local state. From mounting on, every render of
  either component styles its root with \<open>var(--copilot-kit-background-color)\<close>, the
  initial value, and after any number of renders the cells are that one value.
\<close>

theorem background_never_changes:
  "map background_of (fst (renders part_000_Chat n [])) =
     replicate n (JString ''var(--copilot-kit-background-color)'')
   \<and> snd (renders part_000_Chat (Suc n) []) = [''var(--copilot-kit-background-color)'']
   \<and> map background_of (fst (renders part_002_Chat n [])) =
     replicate n (JString ''var(--copilot-kit-background-color)'')
   \<and> snd (renders part_002_Chat (Suc n) []) = [''var(--copilot-kit-background-color)'']"
  by (simp add: backgrounds_part_000_Chat backgrounds_part_002_Chat
      renders_part_000_Chat renders_part_002_Chat del: renders.simps)

text \<open>
  C10. The two page variants give the provider the same agent identifier
  \<open>my_agent\<close>, and the chat component the same initial label and the same suggestion
  list. Their \<open>runtimeUrl\<close> is the environment's value in the first and the literal
  \<open>/api/copilotkit\<close> in the second. That and the caption are all they differ in: the
  second tree is the first with the caption removed and the \<open>runtimeUrl\<close> replaced,
  and the cells are the same.
\<close>

theorem page_variants_equal_up_to_runtimeUrl_and_caption:
  "fst (part_002_Page env hs) =
       set_prop ''CopilotKit'' ''runtimeUrl'' (JString ''/api/copilotkit'')
         (remove_child caption (fst (part_000_Page env hs)))
   \<and> snd (part_002_Page env hs) = snd (part_000_Page env hs)
   \<and> map (get_prop ''agent'') (elements_named ''CopilotKit'' (fst (part_000_Page env hs))) =
       [JString ''my_agent'']
   \<and> map (get_prop ''agent'') (elements_named ''CopilotKit'' (fst (part_002_Page env hs))) =
       [JString ''my_agent'']
   \<and> map (\<lambda>e. field ''initial'' (get_prop ''labels'' e))
       (elements_named ''CopilotChat'' (fst (part_002_Page env hs))) =
     map (\<lambda>e. field ''initial'' (get_prop ''labels'' e))
       (elements_named ''CopilotChat'' (fst (part_000_Page env hs)))
   \<and> suggestions_of (fst (part_002_Page env hs)) = suggestions_of (fst (part_000_Page env hs))
   \<and> get_prop ''runtimeUrl'' (fst (part_000_Page env hs)) =
       process_env env ''NEXT_PUBLIC_API_BASE_URL''
   \<and> get_prop ''runtimeUrl'' (fst (part_002_Page env hs)) = JString ''/api/copilotkit''"
proof (intro conjI)
  show "fst (part_002_Page env hs) =
       set_prop ''CopilotKit'' ''runtimeUrl'' (JString ''/api/copilotkit'')
         (remove_child caption (fst (part_000_Page env hs)))"
    by (rule pages_trees)
  show "snd (part_002_Page env hs) = snd (part_000_Page env hs)"
    by (rule pages_hooks)
  show "map (get_prop ''agent'') (elements_named ''CopilotKit'' (fst (part_000_Page env hs))) =
       [JString ''my_agent'']"
    by (rule part_000_Page_agent)
  show "map (get_prop ''agent'') (elements_named ''CopilotKit'' (fst (part_002_Page env hs))) =
       [JString ''my_agent'']"
    by (rule part_002_Page_agent)
  show "map (\<lambda>e. field ''initial'' (get_prop ''labels'' e))
       (elements_named ''CopilotChat'' (fst (part_002_Page env hs))) =
     map (\<lambda>e. field ''initial'' (get_prop ''labels'' e))
       (elements_named ''CopilotChat'' (fst (part_000_Page env hs)))"
    by (simp only: part_000_Page_initial part_002_Page_initial)
  show "suggestions_of (fst (part_002_Page env hs)) = suggestions_of (fst (part_000_Page env hs))"
    by (simp only: part_000_Page_suggestions part_002_Page_suggestions)
  show "get_prop ''runtimeUrl'' (fst (part_000_Page env hs)) =
       process_env env ''NEXT_PUBLIC_API_BASE_URL''"
    by (rule part_000_Page_runtimeUrl)
  show "get_prop ''runtimeUrl'' (fst (part_002_Page env hs)) = JString ''/api/copilotkit''"
    by (rule part_002_Page_runtimeUrl)
qed

end
